theory Spec2Isabelle
  imports Complex_Main
begin

section \<open>Tensors and the shared L2 normalisation\<close>

text \<open>
  The two scripts build speaker-embedding networks: \<open>SimpleSpeakerEmbedding\<close> in
  \<open>convert_silero.py\<close> (a 1-D CNN over the waveform) and \<open>ResemblyzerWrapper\<close> in
  \<open>download_resemblyzer.py\<close> (an LSTM over mel frames). Tensors are nested lists, the
  outermost list being the batch. Tensor entries are modelled as mathematical reals:
  rounding, infinities and NaN of 32-bit floats are outside this development, and every
  concrete input used below is chosen so that the exact result is also what float
  arithmetic returns up to rounding.

  Errors raised by the tensor library are values: \<open>RuntimeError\<close> for a shape the
  library rejects, \<open>IndexError\<close> for an index out of range.
\<close>

datatype error = RuntimeError | IndexError

definition l2norm :: "real list \<Rightarrow> real" where
  \<comment> \<open>the 2-norm of one row, as \<open>norm\<close> computes it along \<open>dim=1\<close>\<close>
  "l2norm v = sqrt (\<Sum>c\<leftarrow>v. c * c)"

definition norm_dim1_keepdim :: "real list list \<Rightarrow> real list list" where
  \<comment> \<open>\<open>x.norm(dim=1, keepdim=True)\<close>: shape (batch, d) to shape (batch, 1)\<close>
  "norm_dim1_keepdim x = map (\<lambda>r. [l2norm r]) x"

definition add_scalar :: "real list list \<Rightarrow> real \<Rightarrow> real list list" where
  "add_scalar t c = map (map (\<lambda>v. v + c)) t"

definition expand_last :: "nat \<Rightarrow> real list \<Rightarrow> real list" where
  \<comment> \<open>broadcasting: a last dimension of size 1 is stretched to size \<open>n\<close>\<close>
  "expand_last n d = (case d of [c] \<Rightarrow> replicate n c | _ \<Rightarrow> d)"

definition div_broadcast :: "real list list \<Rightarrow> real list list \<Rightarrow> real list list" where
  \<comment> \<open>\<open>x / d\<close> for \<open>x\<close> of shape (batch, d) and \<open>d\<close> of shape (batch, 1)\<close>
  "div_broadcast x d = map2 (\<lambda>r dr. map2 (/) r (expand_last (length r) dr)) x d"

definition l2_normalize :: "real \<Rightarrow> real list list \<Rightarrow> real list list" where
  \<comment> \<open>\<open>x / (x.norm(dim=1, keepdim=True) + eps)\<close>\<close>
  "l2_normalize eps x = div_broadcast x (add_scalar (norm_dim1_keepdim x) eps)"

definition eps_silero :: real where
  \<comment> \<open>\<open>1e-8\<close>, convert_silero.py line 78\<close>
  "eps_silero = 1 / 10 ^ 8"

definition eps_resemblyzer :: real where
  \<comment> \<open>\<open>1e-5\<close>, download_resemblyzer.py line 63\<close>
  "eps_resemblyzer = 1 / 10 ^ 5"

definition dot :: "real list \<Rightarrow> real list \<Rightarrow> real" where
  "dot a b = (\<Sum>(p, q)\<leftarrow>zip a b. p * q)"

text \<open>The clamped formula of the specification, \<open>v / max(\<parallel>v\<parallel>, \<epsilon>)\<close>, for comparison.\<close>

definition normalize_spec :: "real \<Rightarrow> real list \<Rightarrow> real list" where
  "normalize_spec eps v = map (\<lambda>c. c / max (l2norm v) eps) v"


section \<open>Layers of the tensor library\<close>

text \<open>
  \<open>is_tensor3 B C L x\<close> says that the nested list \<open>x\<close> is a tensor of shape (B, C, L),
  \<open>is_tensor2 B D x\<close> that it is one of shape (B, D).
\<close>

definition is_tensor2 :: "nat \<Rightarrow> nat \<Rightarrow> real list list \<Rightarrow> bool" where
  "is_tensor2 B D x = (length x = B \<and> list_all (\<lambda>r. length r = D) x)"

definition is_tensor3 :: "nat \<Rightarrow> nat \<Rightarrow> nat \<Rightarrow> real list list list \<Rightarrow> bool" where
  "is_tensor3 B C L x = (length x = B \<and> list_all (is_tensor2 C L) x)"

definition then_do :: "error + 'a \<Rightarrow> ('a \<Rightarrow> error + 'b) \<Rightarrow> error + 'b" where
  \<comment> \<open>sequencing: an exception raised by a statement ends the function\<close>
  "then_do r f = (case r of Inl e \<Rightarrow> Inl e | Inr v \<Rightarrow> f v)"

record conv1d_layer =
  in_channels :: nat
  out_channels :: nat
  kernel_size :: nat
  stride :: nat
  weight :: "real list list list"
  bias :: "real list"

record linear_layer =
  in_features :: nat
  out_features :: nat
  lin_weight :: "real list list"
  lin_bias :: "real list"

definition conv_shaped :: "conv1d_layer \<Rightarrow> bool" where
  \<comment> \<open>what \<open>nn.Conv1d(cin, cout, kernel_size, stride)\<close> allocates: a weight of shape
      (cout, cin, kernel_size) and a bias of shape (cout)\<close>
  "conv_shaped cv =
     (is_tensor3 (out_channels cv) (in_channels cv) (kernel_size cv) (weight cv)
      \<and> length (bias cv) = out_channels cv)"

definition linear_shaped :: "linear_layer \<Rightarrow> bool" where
  \<comment> \<open>what \<open>nn.Linear(fin, fout)\<close> allocates: a weight of shape (fout, fin) and a bias
      of shape (fout)\<close>
  "linear_shaped l =
     (is_tensor2 (out_features l) (in_features l) (lin_weight l)
      \<and> length (lin_bias l) = out_features l)"

definition time_len :: "real list list \<Rightarrow> nat" where
  \<comment> \<open>the length of the time axis of one sample of shape (C, L)\<close>
  "time_len x = (case x of [] \<Rightarrow> 0 | c # _ \<Rightarrow> length c)"

definition conv_out_len :: "nat \<Rightarrow> nat \<Rightarrow> nat \<Rightarrow> nat" where
  \<comment> \<open>output length of an unpadded, undilated convolution\<close>
  "conv_out_len L k s = (L - k) div s + 1"

definition conv_at :: "conv1d_layer \<Rightarrow> real list list \<Rightarrow> real list list \<Rightarrow> real \<Rightarrow> nat \<Rightarrow> real" where
  \<comment> \<open>one output entry: the bias plus, over the input channels, the kernel against the
      window that starts at \<open>t * stride\<close>\<close>
  "conv_at cv x w b t =
     b + (\<Sum>(wc, xc)\<leftarrow>zip w x. dot wc (take (kernel_size cv) (drop (t * stride cv) xc)))"

definition conv1d_sample :: "conv1d_layer \<Rightarrow> real list list \<Rightarrow> real list list" where
  "conv1d_sample cv x =
     map2 (\<lambda>w b. map (conv_at cv x w b)
                    [0 ..< conv_out_len (time_len x) (kernel_size cv) (stride cv)])
       (weight cv) (bias cv)"

definition conv1d :: "conv1d_layer \<Rightarrow> real list list list \<Rightarrow> error + real list list list" where
  \<comment> \<open>the library raises when the channel count is not \<open>in_channels\<close> or when the
      kernel is longer than the input\<close>
  "conv1d cv x =
     (if list_all (\<lambda>s. length s = in_channels cv \<and> kernel_size cv \<le> time_len s) x
      then Inr (map (conv1d_sample cv) x)
      else Inl RuntimeError)"

definition linear_apply :: "linear_layer \<Rightarrow> real list list \<Rightarrow> error + real list list" where
  \<comment> \<open>\<open>y = x W\<^sup>T + b\<close> on every row; the library raises on a row of another width\<close>
  "linear_apply l x =
     (if list_all (\<lambda>r. length r = in_features l) x
      then Inr (map (\<lambda>r. map2 (\<lambda>w b. dot w r + b) (lin_weight l) (lin_bias l)) x)
      else Inl RuntimeError)"

definition relu2 :: "real list list \<Rightarrow> real list list" where
  "relu2 x = map (map (max 0)) x"

definition relu3 :: "real list list list \<Rightarrow> real list list list" where
  "relu3 x = map relu2 x"

definition unsqueeze1 :: "real list list \<Rightarrow> real list list list" where
  \<comment> \<open>\<open>x.unsqueeze(1)\<close>: shape (batch, samples) to shape (batch, 1, samples)\<close>
  "unsqueeze1 x = map (\<lambda>r. [r]) x"

definition pool :: "real list list list \<Rightarrow> real list list list" where
  \<comment> \<open>\<open>nn.AdaptiveAvgPool1d(1)\<close>: the mean over the time axis, shape (B, C, L) to
      shape (B, C, 1)\<close>
  "pool x = map (map (\<lambda>c. [sum_list c / real (length c)])) x"

definition squeeze_last :: "real list list list \<Rightarrow> real list list" where
  \<comment> \<open>\<open>x.squeeze(-1)\<close> on shape (B, C, 1), which is what \<open>pool\<close> returns\<close>
  "squeeze_last x = map concat x"


section \<open>The CNN model of convert\_silero.py\<close>

record simple_speaker_embedding =
  conv1 :: conv1d_layer
  conv2 :: conv1d_layer
  conv3 :: conv1d_layer
  fc :: linear_layer

definition init_ok :: "simple_speaker_embedding \<Rightarrow> bool" where
  \<comment> \<open>the layers as \<open>__init__\<close> builds them; the weights themselves are arbitrary\<close>
  "init_ok m =
     (in_channels (conv1 m) = 1 \<and> out_channels (conv1 m) = 32
        \<and> kernel_size (conv1 m) = 80 \<and> stride (conv1 m) = 16 \<and> conv_shaped (conv1 m)
      \<and> in_channels (conv2 m) = 32 \<and> out_channels (conv2 m) = 64
        \<and> kernel_size (conv2 m) = 3 \<and> stride (conv2 m) = 2 \<and> conv_shaped (conv2 m)
      \<and> in_channels (conv3 m) = 64 \<and> out_channels (conv3 m) = 128
        \<and> kernel_size (conv3 m) = 3 \<and> stride (conv3 m) = 2 \<and> conv_shaped (conv3 m)
      \<and> in_features (fc m) = 128 \<and> out_features (fc m) = 128 \<and> linear_shaped (fc m))"

definition forward :: "simple_speaker_embedding \<Rightarrow> real list list \<Rightarrow> error + real list list" where
  "forward m x =
     then_do (conv1d (conv1 m) (unsqueeze1 x)) (\<lambda>x.
     then_do (conv1d (conv2 m) (relu3 x)) (\<lambda>x.
     then_do (conv1d (conv3 m) (relu3 x)) (\<lambda>x.
     then_do (linear_apply (fc m) (squeeze_last (pool (relu3 x)))) (\<lambda>x.
     Inr (l2_normalize eps_silero x)))))"

text \<open>
  The encoder in the words of the specification: three stages of a strided convolution
  and a nonlinearity, global average pooling, one affine projection.
\<close>

definition conv_stage :: "conv1d_layer \<Rightarrow> real list list list \<Rightarrow> error + real list list list" where
  "conv_stage cv x = then_do (conv1d cv x) (\<lambda>y. Inr (relu3 y))"

definition global_average_pooling :: "real list list list \<Rightarrow> real list list" where
  "global_average_pooling x = map (map (\<lambda>c. sum_list c / real (length c))) x"

definition cnn_encoder_spec :: "simple_speaker_embedding \<Rightarrow> real list list \<Rightarrow> error + real list list" where
  "cnn_encoder_spec m x =
     then_do (conv_stage (conv1 m) (map (\<lambda>r. [r]) x)) (\<lambda>f1.
     then_do (conv_stage (conv2 m) f1) (\<lambda>f2.
     then_do (conv_stage (conv3 m) f2) (\<lambda>f3.
     linear_apply (fc m) (global_average_pooling f3))))"

text \<open>
  The same stages entry by entry. Output channel \<open>o\<close> of a strided convolution at time
  \<open>t\<close> is the bias of \<open>o\<close> plus the sum, over the input channels \<open>c\<close> and the kernel taps
  \<open>j\<close>, of \<open>weight[o][c][j] * input[c][t * stride + j]\<close>; the nonlinearity is
  \<open>max(0, _)\<close>; global average pooling is the mean of a channel over time; the affine
  projection is \<open>bias[i] + \<Sum>k. weight[i][k] * input[k]\<close>.
\<close>

definition conv_entry :: "conv1d_layer \<Rightarrow> real list list \<Rightarrow> nat \<Rightarrow> nat \<Rightarrow> real" where
  "conv_entry cv s o' t =
     bias cv ! o'
     + (\<Sum>c<in_channels cv. \<Sum>j<kernel_size cv.
          weight cv ! o' ! c ! j * s ! c ! (t * stride cv + j))"

definition strided_conv_relu :: "conv1d_layer \<Rightarrow> real list list list \<Rightarrow> real list list list" where
  "strided_conv_relu cv x =
     map (\<lambda>s. map (\<lambda>o'. map (\<lambda>t. max 0 (conv_entry cv s o' t))
                            [0 ..< conv_out_len (time_len s) (kernel_size cv) (stride cv)])
                  [0 ..< out_channels cv]) x"

definition time_mean :: "real list list list \<Rightarrow> real list list" where
  "time_mean x = map (map (\<lambda>c. (\<Sum>t<length c. c ! t) / real (length c))) x"

definition affine :: "linear_layer \<Rightarrow> real list list \<Rightarrow> real list list" where
  "affine l x =
     map (\<lambda>r. map (\<lambda>i. lin_bias l ! i + (\<Sum>k<in_features l. lin_weight l ! i ! k * r ! k))
                  [0 ..< out_features l]) x"

definition cnn_encoder_formula :: "simple_speaker_embedding \<Rightarrow> real list list \<Rightarrow> real list list" where
  "cnn_encoder_formula m x =
     affine (fc m) (time_mean
       (strided_conv_relu (conv3 m)
         (strided_conv_relu (conv2 m)
           (strided_conv_relu (conv1 m) (map (\<lambda>r. [r]) x)))))"

definition const_conv :: "nat \<Rightarrow> nat \<Rightarrow> nat \<Rightarrow> nat \<Rightarrow> real \<Rightarrow> real \<Rightarrow> conv1d_layer" where
  \<comment> \<open>a convolution layer whose weights all equal \<open>w\<close> and whose biases all equal \<open>b\<close>\<close>
  "const_conv cin cout k s w b =
     \<lparr>in_channels = cin, out_channels = cout, kernel_size = k, stride = s,
      weight = replicate cout (replicate cin (replicate k w)), bias = replicate cout b\<rparr>"

definition const_linear :: "nat \<Rightarrow> nat \<Rightarrow> real \<Rightarrow> real \<Rightarrow> linear_layer" where
  "const_linear fin fout w b =
     \<lparr>in_features = fin, out_features = fout,
      lin_weight = replicate fout (replicate fin w), lin_bias = replicate fout b\<rparr>"

definition const_model :: simple_speaker_embedding where
  \<comment> \<open>a module of \<open>__init__\<close>'s shapes whose first convolution is negative on a positive
      input, so that its ReLU clips\<close>
  "const_model =
     \<lparr>conv1 = const_conv 1 32 80 16 (- 1 / 80) 0, conv2 = const_conv 32 64 3 2 (1 / 96) 1,
      conv3 = const_conv 64 128 3 2 (1 / 192) 0, fc = const_linear 128 128 (1 / 128) 1\<rparr>"

definition zero_conv :: "nat \<Rightarrow> nat \<Rightarrow> nat \<Rightarrow> nat \<Rightarrow> conv1d_layer" where
  \<comment> \<open>a convolution layer whose weights and biases are all zero\<close>
  "zero_conv cin cout k s =
     \<lparr>in_channels = cin, out_channels = cout, kernel_size = k, stride = s,
      weight = replicate cout (replicate cin (replicate k 0)), bias = replicate cout 0\<rparr>"

definition zero_linear :: "nat \<Rightarrow> nat \<Rightarrow> linear_layer" where
  "zero_linear fin fout =
     \<lparr>in_features = fin, out_features = fout,
      lin_weight = replicate fout (replicate fin 0), lin_bias = replicate fout 0\<rparr>"

definition zero_model :: simple_speaker_embedding where
  \<comment> \<open>the module of \<open>__init__\<close> with every weight set to zero\<close>
  "zero_model =
     \<lparr>conv1 = zero_conv 1 32 80 16, conv2 = zero_conv 32 64 3 2,
      conv3 = zero_conv 64 128 3 2, fc = zero_linear 128 128\<rparr>"


section \<open>The LSTM wrapper of download\_resemblyzer.py\<close>

text \<open>
  \<open>encoder.lstm\<close> and \<open>encoder.linear\<close> come from the \<open>resemblyzer\<close> package. The
  wrapper holds the LSTM as a function from the mel batch to \<open>(out, (hidden, cell))\<close>, or
  to the error it raises, where \<open>hidden\<close> has shape (layers, batch, hidden size); what
  the wrapper does with the result holds for any such function. The tensor library's
  layer itself is \<open>nn_lstm\<close> below.
\<close>

type_synonym lstm_result = "real list list list \<times> (real list list list \<times> real list list list)"

record resemblyzer_wrapper =
  lstm :: "real list list list \<Rightarrow> error + lstm_result"
  linear_of :: linear_layer

definition index_last :: "'a list \<Rightarrow> error + 'a" where
  \<comment> \<open>\<open>hidden[-1]\<close>: the last entry along the first axis\<close>
  "index_last xs = (case xs of [] \<Rightarrow> Inl IndexError | _ # _ \<Rightarrow> Inr (last xs))"

definition wrapper_forward ::
  "resemblyzer_wrapper \<Rightarrow> real list list list \<Rightarrow> error + real list list" where
  "wrapper_forward w mels =
     then_do (lstm w mels) (\<lambda>(out, (hidden, c)).
     then_do (index_last hidden) (\<lambda>h.
     then_do (linear_apply (linear_of w) h) (\<lambda>y.
     let embeds_raw = relu2 y;
         embeds = l2_normalize eps_resemblyzer embeds_raw
     in Inr embeds)))"

definition stub_lstm :: "real list list list \<Rightarrow> error + lstm_result" where
  \<comment> \<open>a stand-in recurrent layer with one layer and hidden size 1, used only to run the
      wrapper on concrete inputs: its state is the sum of the first mel channel over
      the frames, and like \<open>nn.LSTM(40, ...)\<close> it rejects frames that do not have 40
      channels\<close>
  "stub_lstm mels =
     (if list_all (list_all (\<lambda>f. length f = 40)) mels
      then Inr ([], ([map (\<lambda>s. [\<Sum>f\<leftarrow>s. case f of [] \<Rightarrow> 0 | a # _ \<Rightarrow> a]) mels], []))
      else Inl RuntimeError)"

definition stub_wrapper :: "linear_layer \<Rightarrow> resemblyzer_wrapper" where
  "stub_wrapper l = \<lparr>lstm = stub_lstm, linear_of = l\<rparr>"

definition plus_minus :: linear_layer where
  \<comment> \<open>the projection \<open>h \<mapsto> (h, -h)\<close>\<close>
  "plus_minus = \<lparr>in_features = 1, out_features = 2,
                  lin_weight = [[1], [-1]], lin_bias = [0, 0]\<rparr>"















section \<open>Facts about the normalisation\<close>

lemma l2norm_nonneg: "0 \<le> l2norm v"
  unfolding l2norm_def by (auto intro!: sum_list_nonneg)

lemma l2norm_Nil: "l2norm [] = 0"
  by (simp add: l2norm_def)

lemma l2norm_single: "l2norm [c] = \<bar>c\<bar>"
  by (simp add: l2norm_def)

lemma map2_replicate_div:
  "map2 (/) r (replicate (length r) (n::real)) = map (\<lambda>c. c / n) r"
  by (induction r) simp_all

lemma map2_same: "map2 g xs (map f xs) = map (\<lambda>x. g x (f x)) xs"
  by (induction xs) simp_all

lemma l2_normalize_rows:
  "l2_normalize eps x = map (\<lambda>v. map (\<lambda>c. c / (l2norm v + eps)) v) x"
  unfolding l2_normalize_def div_broadcast_def add_scalar_def norm_dim1_keepdim_def
  by (simp add: map2_same expand_last_def map2_replicate_div)

lemma eps_silero_pos: "0 < eps_silero"
  by (simp add: eps_silero_def)

lemma eps_resemblyzer_pos: "0 < eps_resemblyzer"
  by (simp add: eps_resemblyzer_def)

lemma denominator_pos: "0 < eps \<Longrightarrow> 0 < l2norm v + eps"
  using l2norm_nonneg [of v] by simp








lemma clamp_factor:
  fixes n eps :: real
  assumes "0 \<le> n" "0 < eps"
  shows "c / (n + eps) = c / max n eps * (max n eps / (n + eps))"
    "1 / 2 \<le> max n eps / (n + eps)" "max n eps / (n + eps) \<le> 1"
proof -
  have pos: "0 < n + eps" "0 < max n eps" using assms by simp_all
  show "c / (n + eps) = c / max n eps * (max n eps / (n + eps))" using pos by simp
  show "1 / 2 \<le> max n eps / (n + eps)" using pos assms by (simp add: field_simps max_def)
  show "max n eps / (n + eps) \<le> 1" using pos assms by (simp add: field_simps max_def)
qed


lemma clamp_relation:
  assumes "0 < eps"
  shows "l2_normalize eps x
       = map (\<lambda>v. map (\<lambda>s. s * (max (l2norm v) eps / (l2norm v + eps)))
                         (normalize_spec eps v)) x"
  unfolding l2_normalize_rows normalize_spec_def map_map comp_def
  using clamp_factor(1) [OF l2norm_nonneg assms] by simp

lemma single_eps: "0 < e \<Longrightarrow> l2_normalize e [[e]] = [[1 / 2]]"
  by (simp add: l2_normalize_rows l2norm_single)

lemma single_eps_spec: "0 < e \<Longrightarrow> normalize_spec e [e] = [1]"
  by (simp add: normalize_spec_def l2norm_single)

lemma no_clamp_eps:
  assumes e: "0 < e"
  shows "\<not> (\<exists>eps. \<forall>v. l2_normalize e [v] = [normalize_spec eps v])"
proof
  assume "\<exists>eps. \<forall>v. l2_normalize e [v] = [normalize_spec eps v]"
  then obtain eps where a: "\<And>v. l2_normalize e [v] = [normalize_spec eps v]" by blast
  have "e / (e + e) = e / max e eps"
    using a [of "[e]"] e by (simp add: l2_normalize_rows normalize_spec_def l2norm_single)
  then have "max e eps = e + e" using e by (simp add: field_simps)
  then have eps: "eps = 2 * e" using e by (simp add: max_def split: if_splits)
  have "2 * e / (2 * e + e) = 2 * e / max (2 * e) eps"
    using a [of "[2 * e]"] e by (simp add: l2_normalize_rows normalize_spec_def l2norm_single)
  then have "2 * e / (3 * e) = 1" using e eps by simp
  then show False using e by simp
qed








section \<open>Shapes through the layers\<close>

lemma is_tensor2_iff: "is_tensor2 B D x = (length x = B \<and> (\<forall>r\<in>set x. length r = D))"
  by (simp add: is_tensor2_def list_all_iff)

lemma is_tensor3_iff: "is_tensor3 B C L x = (length x = B \<and> (\<forall>s\<in>set x. is_tensor2 C L s))"
  by (simp add: is_tensor3_def list_all_iff)

lemma time_len_tensor2: "is_tensor2 C L x \<Longrightarrow> 0 < C \<Longrightarrow> time_len x = L"
  by (cases x) (auto simp: time_len_def is_tensor2_def)

lemma conv1d_sample_shape:
  assumes "conv_shaped cv" "is_tensor2 (in_channels cv) L x" "0 < in_channels cv"
  shows "is_tensor2 (out_channels cv) (conv_out_len L (kernel_size cv) (stride cv))
           (conv1d_sample cv x)"
  using assms time_len_tensor2 [OF assms(2,3)]
  by (auto simp: conv1d_sample_def conv_shaped_def is_tensor2_iff is_tensor3_iff)

lemma conv1d_ok:
  assumes "conv_shaped cv" "is_tensor3 B (in_channels cv) L x" "0 < in_channels cv"
    "kernel_size cv \<le> L"
  shows "\<exists>y. conv1d cv x = Inr y
           \<and> is_tensor3 B (out_channels cv) (conv_out_len L (kernel_size cv) (stride cv)) y"
proof -
  have "length s = in_channels cv \<and> kernel_size cv \<le> time_len s" if "s \<in> set x" for s
  proof -
    have t: "is_tensor2 (in_channels cv) L s" using that assms(2) by (simp add: is_tensor3_iff)
    then have "time_len s = L" using assms(3) by (rule time_len_tensor2)
    then show ?thesis using t assms(4) by (simp add: is_tensor2_iff)
  qed
  then have "\<forall>s\<in>set x. length s = in_channels cv \<and> kernel_size cv \<le> time_len s"
    by blast
  then have "conv1d cv x = Inr (map (conv1d_sample cv) x)"
    by (simp add: conv1d_def list_all_iff)
  moreover have "is_tensor3 B (out_channels cv)
      (conv_out_len L (kernel_size cv) (stride cv)) (map (conv1d_sample cv) x)"
    using assms conv1d_sample_shape by (auto simp: is_tensor3_iff)
  ultimately show ?thesis by simp
qed

lemma conv1d_fail:
  assumes "is_tensor3 B C L x" "0 < B" "0 < C" "L < kernel_size cv"
  shows "conv1d cv x = Inl RuntimeError"
proof -
  obtain s where s: "s \<in> set x" using assms(1,2) by (cases x) (auto simp: is_tensor3_iff)
  then have "is_tensor2 C L s" using assms(1) by (simp add: is_tensor3_iff)
  then have "time_len s = L" using assms(3) by (rule time_len_tensor2)
  then have "\<not> kernel_size cv \<le> time_len s" using assms(4) by simp
  then have "\<not> (\<forall>s\<in>set x. length s = in_channels cv \<and> kernel_size cv \<le> time_len s)"
    using s by blast
  then show ?thesis by (simp add: conv1d_def list_all_iff)
qed

lemma relu3_shape: "is_tensor3 B C L x \<Longrightarrow> is_tensor3 B C L (relu3 x)"
  by (auto simp: is_tensor3_iff is_tensor2_iff relu3_def relu2_def)

lemma relu2_shape: "is_tensor2 B D x \<Longrightarrow> is_tensor2 B D (relu2 x)"
  by (auto simp: is_tensor2_iff relu2_def)

lemma unsqueeze1_shape: "is_tensor2 B L x \<Longrightarrow> is_tensor3 B 1 L (unsqueeze1 x)"
  by (auto simp: is_tensor3_iff is_tensor2_iff unsqueeze1_def)

lemma squeeze_pool: "squeeze_last (pool x) = global_average_pooling x"
  by (simp add: squeeze_last_def pool_def global_average_pooling_def comp_def)

lemma global_average_pooling_shape:
  "is_tensor3 B C L x \<Longrightarrow> is_tensor2 B C (global_average_pooling x)"
  by (auto simp: is_tensor3_iff is_tensor2_iff global_average_pooling_def)

lemma linear_ok:
  assumes "linear_shaped l" "is_tensor2 B (in_features l) x"
  shows "\<exists>y. linear_apply l x = Inr y \<and> is_tensor2 B (out_features l) y"
  using assms by (auto simp: linear_apply_def linear_shaped_def is_tensor2_iff list_all_iff)

lemma l2_normalize_shape: "is_tensor2 B D x \<Longrightarrow> is_tensor2 B D (l2_normalize eps x)"
  by (auto simp: l2_normalize_rows is_tensor2_iff)

lemma then_do_Inr [simp]: "then_do (Inr v) f = f v"
  by (simp add: then_do_def)

lemma then_do_Inl [simp]: "then_do (Inl e) f = Inl e"
  by (simp add: then_do_def)

lemma forward_as_stages:
  "forward m x = then_do (cnn_encoder_spec m x) (\<lambda>e. Inr (l2_normalize eps_silero e))"
  by (simp add: forward_def cnn_encoder_spec_def conv_stage_def then_do_def unsqueeze1_def
      squeeze_pool split: sum.splits)

lemma conv_stage_shape:
  assumes "conv_shaped cv" "is_tensor3 B (in_channels cv) L x" "0 < in_channels cv"
    "kernel_size cv \<le> L"
  shows "\<exists>y. conv_stage cv x = Inr y
           \<and> is_tensor3 B (out_channels cv) (conv_out_len L (kernel_size cv) (stride cv)) y"
  using conv1d_ok [OF assms] by (auto simp: conv_stage_def intro: relu3_shape)

lemma conv_stage_fail:
  assumes "is_tensor3 B C L x" "0 < B" "0 < C" "L < kernel_size cv"
  shows "conv_stage cv x = Inl RuntimeError"
  using conv1d_fail [OF assms] by (simp add: conv_stage_def)

lemma encoder_stages:
  assumes m: "init_ok m" and x: "is_tensor2 B L x" and L: "176 \<le> L"
  shows "\<exists>f1 f2 f3 e.
           conv_stage (conv1 m) (unsqueeze1 x) = Inr f1
         \<and> is_tensor3 B 32 (conv_out_len L 80 16) f1
         \<and> conv_stage (conv2 m) f1 = Inr f2
         \<and> is_tensor3 B 64 (conv_out_len (conv_out_len L 80 16) 3 2) f2
         \<and> conv_stage (conv3 m) f2 = Inr f3
         \<and> is_tensor3 B 128 (conv_out_len (conv_out_len (conv_out_len L 80 16) 3 2) 3 2) f3
         \<and> linear_apply (fc m) (global_average_pooling f3) = Inr e
         \<and> is_tensor2 B 128 e
         \<and> cnn_encoder_spec m x = Inr e
         \<and> forward m x = Inr (l2_normalize eps_silero e)"
proof -
  let ?L1 = "conv_out_len L 80 16"
  let ?L2 = "conv_out_len ?L1 3 2"
  let ?L3 = "conv_out_len ?L2 3 2"
  have L1: "3 \<le> ?L1" and L2: "3 \<le> ?L2"
    using L by (simp_all add: conv_out_len_def)
  have x3: "is_tensor3 B (in_channels (conv1 m)) L (unsqueeze1 x)"
    using m unsqueeze1_shape [OF x] by (simp add: init_ok_def)
  obtain f1 where f1: "conv_stage (conv1 m) (unsqueeze1 x) = Inr f1"
      "is_tensor3 B 32 ?L1 f1"
    using conv_stage_shape [OF _ x3] m L by (auto simp: init_ok_def)
  have "is_tensor3 B (in_channels (conv2 m)) ?L1 f1"
    using m f1(2) by (simp add: init_ok_def)
  then obtain f2 where f2: "conv_stage (conv2 m) f1 = Inr f2" "is_tensor3 B 64 ?L2 f2"
    using conv_stage_shape [of "conv2 m" B ?L1 f1] m L1 by (auto simp: init_ok_def)
  have "is_tensor3 B (in_channels (conv3 m)) ?L2 f2"
    using m f2(2) by (simp add: init_ok_def)
  then obtain f3 where f3: "conv_stage (conv3 m) f2 = Inr f3" "is_tensor3 B 128 ?L3 f3"
    using conv_stage_shape [of "conv3 m" B ?L2 f2] m L2 by (auto simp: init_ok_def)
  have "is_tensor2 B (in_features (fc m)) (global_average_pooling f3)"
    using m global_average_pooling_shape [OF f3(2)] by (simp add: init_ok_def)
  then obtain e where e: "linear_apply (fc m) (global_average_pooling f3) = Inr e"
      "is_tensor2 B 128 e"
    using linear_ok [of "fc m" B "global_average_pooling f3"] m by (auto simp: init_ok_def)
  have spec: "cnn_encoder_spec m x = Inr e"
    using f1(1) f2(1) f3(1) e(1) by (simp add: cnn_encoder_spec_def unsqueeze1_def)
  then have "forward m x = Inr (l2_normalize eps_silero e)"
    by (simp add: forward_as_stages)
  with f1 f2 f3 e spec show ?thesis by blast
qed

lemma forward_too_short:
  assumes m: "init_ok m" and x: "is_tensor2 B L x" and B: "0 < B" and L: "L < 176"
  shows "forward m x = Inl RuntimeError"
proof -
  let ?L1 = "conv_out_len L 80 16"
  let ?L2 = "conv_out_len ?L1 3 2"
  have x3: "is_tensor3 B 1 L (unsqueeze1 x)" using x by (rule unsqueeze1_shape)
  have x3': "is_tensor3 B (in_channels (conv1 m)) L (unsqueeze1 x)"
    using m x3 by (simp add: init_ok_def)
  consider "L < 80" | "80 \<le> L" "?L1 < 3" | "80 \<le> L" "3 \<le> ?L1" by linarith
  then have "cnn_encoder_spec m x = Inl RuntimeError"
  proof cases
    case 1
    then have "conv_stage (conv1 m) (unsqueeze1 x) = Inl RuntimeError"
      using conv_stage_fail [OF x3 B, of "conv1 m"] m by (simp add: init_ok_def)
    then show ?thesis by (simp add: cnn_encoder_spec_def unsqueeze1_def)
  next
    case 2
    obtain f1 where f1: "conv_stage (conv1 m) (unsqueeze1 x) = Inr f1"
        "is_tensor3 B 32 ?L1 f1"
      using conv_stage_shape [OF _ x3'] m 2(1) by (auto simp: init_ok_def)
    have "conv_stage (conv2 m) f1 = Inl RuntimeError"
      using conv_stage_fail [OF f1(2) B, of "conv2 m"] m 2(2) by (simp add: init_ok_def)
    then show ?thesis using f1(1) by (simp add: cnn_encoder_spec_def unsqueeze1_def)
  next
    case 3
    obtain f1 where f1: "conv_stage (conv1 m) (unsqueeze1 x) = Inr f1"
        "is_tensor3 B 32 ?L1 f1"
      using conv_stage_shape [OF _ x3'] m 3(1) by (auto simp: init_ok_def)
    have "is_tensor3 B (in_channels (conv2 m)) ?L1 f1"
      using m f1(2) by (simp add: init_ok_def)
    then obtain f2 where f2: "conv_stage (conv2 m) f1 = Inr f2" "is_tensor3 B 64 ?L2 f2"
      using conv_stage_shape [of "conv2 m" B ?L1 f1] m 3(2) by (auto simp: init_ok_def)
    have "?L2 < 3" using L 3 by (simp add: conv_out_len_def)
    then have "conv_stage (conv3 m) f2 = Inl RuntimeError"
      using conv_stage_fail [OF f2(2) B, of "conv3 m"] m by (simp add: init_ok_def)
    then show ?thesis using f1(1) f2(1) by (simp add: cnn_encoder_spec_def unsqueeze1_def)
  qed
  then show ?thesis by (simp add: forward_as_stages)
qed


section \<open>The stages entry by entry\<close>

lemma sum_list_zip_nth:
  assumes "length a = length b"
  shows "(\<Sum>(p, q)\<leftarrow>zip a b. f p q) = (\<Sum>i<length a. f (a ! i) (b ! i) :: real)"
proof -
  have "(\<Sum>(p, q)\<leftarrow>zip a b. f p q) = (\<Sum>i = 0..<length (zip a b). map (\<lambda>(p, q). f p q) (zip a b) ! i)"
    by (simp add: sum_list_sum_nth)
  also have "\<dots> = (\<Sum>i = 0..<length a. f (a ! i) (b ! i))"
    using assms by (intro sum.cong) simp_all
  finally show ?thesis by (simp add: atLeast0LessThan)
qed

lemma dot_nth: "length a = length b \<Longrightarrow> dot a b = (\<Sum>j<length a. a ! j * b ! j)"
  unfolding dot_def by (rule sum_list_zip_nth)

lemma window_bound:
  assumes "t < conv_out_len L k s" "k \<le> L"
  shows "t * s + k \<le> L"
proof -
  have "t \<le> (L - k) div s" using assms(1) by (simp add: conv_out_len_def)
  then have "t * s \<le> (L - k) div s * s" by (rule mult_le_mono1)
  also have "\<dots> \<le> L - k" by simp
  finally show ?thesis using assms(2) by simp
qed

lemma conv_at_entry:
  assumes cv: "conv_shaped cv" and x: "is_tensor2 (in_channels cv) L s"
    and k: "kernel_size cv \<le> L" and o: "o' < out_channels cv"
    and t: "t < conv_out_len L (kernel_size cv) (stride cv)"
  shows "conv_at cv s (weight cv ! o') (bias cv ! o') t = conv_entry cv s o' t"
proof -
  let ?w = "weight cv ! o'"
  have w: "is_tensor2 (in_channels cv) (kernel_size cv) ?w"
    using cv o by (simp add: conv_shaped_def is_tensor3_iff)
  have lw: "length ?w = length s" using w x by (simp add: is_tensor2_iff)
  have b: "t * stride cv + kernel_size cv \<le> L" using window_bound [OF t k] .
  have inner: "dot (?w ! c) (take (kernel_size cv) (drop (t * stride cv) (s ! c)))
      = (\<Sum>j<kernel_size cv. ?w ! c ! j * s ! c ! (t * stride cv + j))"
    if c: "c < in_channels cv" for c
  proof -
    have l1: "length (?w ! c) = kernel_size cv" using w c by (simp add: is_tensor2_iff)
    have l2: "length (s ! c) = L" using x c by (simp add: is_tensor2_iff)
    have l3: "length (take (kernel_size cv) (drop (t * stride cv) (s ! c))) = kernel_size cv"
      using l2 b by simp
    have "dot (?w ! c) (take (kernel_size cv) (drop (t * stride cv) (s ! c)))
        = (\<Sum>j<kernel_size cv. ?w ! c ! j
             * take (kernel_size cv) (drop (t * stride cv) (s ! c)) ! j)"
      using dot_nth [of "?w ! c" "take (kernel_size cv) (drop (t * stride cv) (s ! c))"] l1 l3
      by simp
    also have "\<dots> = (\<Sum>j<kernel_size cv. ?w ! c ! j * s ! c ! (t * stride cv + j))"
      using l2 b by (intro sum.cong) simp_all
    finally show ?thesis .
  qed
  have "conv_at cv s ?w (bias cv ! o') t
      = bias cv ! o' + (\<Sum>c<length ?w.
          dot (?w ! c) (take (kernel_size cv) (drop (t * stride cv) (s ! c))))"
    unfolding conv_at_def using sum_list_zip_nth [OF lw] by simp
  also have "length ?w = in_channels cv" using w by (simp add: is_tensor2_iff)
  finally show ?thesis using inner by (simp add: conv_entry_def)
qed

lemma conv1d_sample_formula:
  assumes cv: "conv_shaped cv" and x: "is_tensor2 (in_channels cv) L s"
    and c: "0 < in_channels cv" and k: "kernel_size cv \<le> L"
  shows "conv1d_sample cv s
       = map (\<lambda>o'. map (\<lambda>t. conv_entry cv s o' t)
                       [0 ..< conv_out_len (time_len s) (kernel_size cv) (stride cv)])
           [0 ..< out_channels cv]"
proof (rule nth_equalityI)
  have tl: "time_len s = L" using x c by (rule time_len_tensor2)
  have lw: "length (weight cv) = out_channels cv" "length (bias cv) = out_channels cv"
    using cv by (simp_all add: conv_shaped_def is_tensor3_iff)
  show "length (conv1d_sample cv s)
      = length (map (\<lambda>o'. map (\<lambda>t. conv_entry cv s o' t)
                       [0 ..< conv_out_len (time_len s) (kernel_size cv) (stride cv)])
           [0 ..< out_channels cv])"
    using lw by (simp add: conv1d_sample_def)
  fix i assume "i < length (conv1d_sample cv s)"
  then have i: "i < out_channels cv" using lw by (simp add: conv1d_sample_def)
  have "conv1d_sample cv s ! i
      = map (conv_at cv s (weight cv ! i) (bias cv ! i))
          [0 ..< conv_out_len L (kernel_size cv) (stride cv)]"
    using i lw tl by (simp add: conv1d_sample_def)
  also have "\<dots> = map (\<lambda>t. conv_entry cv s i t)
          [0 ..< conv_out_len L (kernel_size cv) (stride cv)]"
    using conv_at_entry [OF cv x k i] by (intro map_cong) simp_all
  finally show "conv1d_sample cv s ! i
      = map (\<lambda>o'. map (\<lambda>t. conv_entry cv s o' t)
                      [0 ..< conv_out_len (time_len s) (kernel_size cv) (stride cv)])
          [0 ..< out_channels cv] ! i"
    using i tl by simp
qed

lemma conv_stage_formula:
  assumes cv: "conv_shaped cv" and x: "is_tensor3 B (in_channels cv) L x"
    and c: "0 < in_channels cv" and k: "kernel_size cv \<le> L"
  shows "conv_stage cv x = Inr (strided_conv_relu cv x)"
proof -
  have s: "is_tensor2 (in_channels cv) L s" if "s \<in> set x" for s
    using x that by (simp add: is_tensor3_iff)
  have "length s = in_channels cv \<and> kernel_size cv \<le> time_len s" if "s \<in> set x" for s
  proof -
    have "time_len s = L" using s [OF that] c by (rule time_len_tensor2)
    then show ?thesis using s [OF that] k by (simp add: is_tensor2_iff)
  qed
  then have ok: "\<forall>s\<in>set x. length s = in_channels cv \<and> kernel_size cv \<le> time_len s"
    by blast
  have "relu3 (map (conv1d_sample cv) x) = strided_conv_relu cv x"
    unfolding relu3_def relu2_def strided_conv_relu_def map_map
    using conv1d_sample_formula [OF cv s c k] by (intro map_cong) (simp_all add: comp_def)
  then show ?thesis using ok by (simp add: conv_stage_def conv1d_def list_all_iff)
qed

lemma global_average_pooling_formula: "global_average_pooling x = time_mean x"
  by (simp add: global_average_pooling_def time_mean_def sum_list_sum_nth atLeast0LessThan)

lemma linear_formula:
  assumes l: "linear_shaped l" and x: "is_tensor2 B (in_features l) x"
  shows "linear_apply l x = Inr (affine l x)"
proof -
  have row: "map2 (\<lambda>w b. dot w r + b) (lin_weight l) (lin_bias l)
      = map (\<lambda>i. lin_bias l ! i + (\<Sum>k<in_features l. lin_weight l ! i ! k * r ! k))
          [0 ..< out_features l]"
    if r: "length r = in_features l" for r
  proof (rule nth_equalityI)
    show "length (map2 (\<lambda>w b. dot w r + b) (lin_weight l) (lin_bias l))
        = length (map (\<lambda>i. lin_bias l ! i + (\<Sum>k<in_features l. lin_weight l ! i ! k * r ! k))
          [0 ..< out_features l])"
      using l by (simp add: linear_shaped_def is_tensor2_iff)
    fix i assume "i < length (map2 (\<lambda>w b. dot w r + b) (lin_weight l) (lin_bias l))"
    then have i: "i < out_features l" "i < length (lin_weight l)" "i < length (lin_bias l)"
      using l by (simp_all add: linear_shaped_def is_tensor2_iff)
    have "length (lin_weight l ! i) = length r"
      using l i r by (simp add: linear_shaped_def is_tensor2_iff)
    then have "dot (lin_weight l ! i) r = (\<Sum>k<in_features l. lin_weight l ! i ! k * r ! k)"
      using dot_nth [of "lin_weight l ! i" r] r by simp
    then show "map2 (\<lambda>w b. dot w r + b) (lin_weight l) (lin_bias l) ! i
        = map (\<lambda>i. lin_bias l ! i + (\<Sum>k<in_features l. lin_weight l ! i ! k * r ! k))
            [0 ..< out_features l] ! i"
      using i by simp
  qed
  have "\<forall>r\<in>set x. length r = in_features l" using x by (simp add: is_tensor2_iff)
  then show ?thesis using row
    by (simp add: linear_apply_def affine_def list_all_iff cong: map_cong)
qed

lemma encoder_formula:
  assumes m: "init_ok m" and x: "is_tensor2 B L x" and L: "176 \<le> L"
  shows "\<exists>f1 f2 f3 e.
           f1 = strided_conv_relu (conv1 m) (unsqueeze1 x)
         \<and> is_tensor3 B 32 (conv_out_len L 80 16) f1
         \<and> f2 = strided_conv_relu (conv2 m) f1
         \<and> is_tensor3 B 64 (conv_out_len (conv_out_len L 80 16) 3 2) f2
         \<and> f3 = strided_conv_relu (conv3 m) f2
         \<and> is_tensor3 B 128 (conv_out_len (conv_out_len (conv_out_len L 80 16) 3 2) 3 2) f3
         \<and> e = affine (fc m) (time_mean f3)
         \<and> is_tensor2 B 128 e
         \<and> forward m x = Inr (l2_normalize eps_silero e)
         \<and> forward m x = Inr (l2_normalize eps_silero (cnn_encoder_formula m x))"
proof -
  let ?L1 = "conv_out_len L 80 16"
  let ?L2 = "conv_out_len ?L1 3 2"
  have L1: "3 \<le> ?L1" and L2: "3 \<le> ?L2"
    using L by (simp_all add: conv_out_len_def)
  obtain f1 f2 f3 e where st:
      "conv_stage (conv1 m) (unsqueeze1 x) = Inr f1" "is_tensor3 B 32 ?L1 f1"
      "conv_stage (conv2 m) f1 = Inr f2" "is_tensor3 B 64 ?L2 f2"
      "conv_stage (conv3 m) f2 = Inr f3" "is_tensor3 B 128 (conv_out_len ?L2 3 2) f3"
      "linear_apply (fc m) (global_average_pooling f3) = Inr e" "is_tensor2 B 128 e"
      "forward m x = Inr (l2_normalize eps_silero e)"
    using encoder_stages [OF m x L] by blast
  have x3: "is_tensor3 B (in_channels (conv1 m)) L (unsqueeze1 x)"
    using m unsqueeze1_shape [OF x] by (simp add: init_ok_def)
  have "conv_stage (conv1 m) (unsqueeze1 x) = Inr (strided_conv_relu (conv1 m) (unsqueeze1 x))"
    using conv_stage_formula [OF _ x3] m L by (simp add: init_ok_def)
  then have f1: "f1 = strided_conv_relu (conv1 m) (unsqueeze1 x)" using st(1) by simp
  have "is_tensor3 B (in_channels (conv2 m)) ?L1 f1" using m st(2) by (simp add: init_ok_def)
  then have "conv_stage (conv2 m) f1 = Inr (strided_conv_relu (conv2 m) f1)"
    using conv_stage_formula [of "conv2 m" B ?L1 f1] m L1 by (simp add: init_ok_def)
  then have f2: "f2 = strided_conv_relu (conv2 m) f1" using st(3) by simp
  have "is_tensor3 B (in_channels (conv3 m)) ?L2 f2" using m st(4) by (simp add: init_ok_def)
  then have "conv_stage (conv3 m) f2 = Inr (strided_conv_relu (conv3 m) f2)"
    using conv_stage_formula [of "conv3 m" B ?L2 f2] m L2 by (simp add: init_ok_def)
  then have f3: "f3 = strided_conv_relu (conv3 m) f2" using st(5) by simp
  have "is_tensor2 B (in_features (fc m)) (time_mean f3)"
    using m global_average_pooling_shape [OF st(6)]
    by (simp add: init_ok_def global_average_pooling_formula)
  then have "linear_apply (fc m) (time_mean f3) = Inr (affine (fc m) (time_mean f3))"
    using linear_formula [of "fc m" B "time_mean f3"] m by (simp add: init_ok_def)
  then have e: "e = affine (fc m) (time_mean f3)"
    using st(7) by (simp add: global_average_pooling_formula)
  have "e = cnn_encoder_formula m x"
    using e f1 f2 f3 by (simp add: cnn_encoder_formula_def unsqueeze1_def)
  then have "forward m x = Inr (l2_normalize eps_silero (cnn_encoder_formula m x))"
    using st(9) by simp
  with st f1 f2 f3 e show ?thesis by blast
qed

lemma const_model_ok: "init_ok const_model"
  by (simp add: init_ok_def const_model_def const_conv_def const_linear_def conv_shaped_def
      linear_shaped_def is_tensor3_iff is_tensor2_iff)

lemma const_conv_entry:
  assumes "o' < cout" and "t * s + k \<le> L"
  shows "conv_entry (const_conv cin cout k s w b) (replicate cin (replicate L v)) o' t
       = b + real cin * (real k * (w * v))"
proof -
  have "(\<Sum>c<cin. \<Sum>j<k. replicate cout (replicate cin (replicate k w)) ! o' ! c ! j
            * replicate cin (replicate L v) ! c ! (t * s + j))
      = (\<Sum>c<cin. \<Sum>j<k. w * v)"
    using assms by (intro sum.cong) simp_all
  then show ?thesis using assms(1) by (simp add: conv_entry_def const_conv_def)
qed

lemma const_stage:
  assumes "k \<le> L" and "0 < cin"
  shows "strided_conv_relu (const_conv cin cout k s w b)
           (replicate B (replicate cin (replicate L v)))
       = replicate B (replicate cout (replicate (conv_out_len L k s)
           (max 0 (b + real cin * (real k * (w * v))))))"
proof -
  let ?cv = "const_conv cin cout k s w b"
  let ?x = "replicate cin (replicate L v)"
  let ?n = "conv_out_len L k s"
  let ?y = "max 0 (b + real cin * (real k * (w * v)))"
  have tl: "time_len ?x = L" using assms(2) by (cases cin) (simp_all add: time_len_def)
  have par: "kernel_size ?cv = k" "stride ?cv = s" "out_channels ?cv = cout"
    by (simp_all add: const_conv_def)
  have row: "map (\<lambda>t. max 0 (conv_entry ?cv ?x o' t)) [0 ..< ?n] = replicate ?n ?y"
    if "o' < cout" for o'
  proof -
    have "map (\<lambda>t. max 0 (conv_entry ?cv ?x o' t)) [0 ..< ?n] = map (\<lambda>t. ?y) [0 ..< ?n]"
      using const_conv_entry [OF that window_bound [OF _ assms(1)], of _ s cin w b v]
      by (intro map_cong) simp_all
    then show ?thesis by (simp add: map_replicate_const)
  qed
  have "map (\<lambda>o'. map (\<lambda>t. max 0 (conv_entry ?cv ?x o' t)) [0 ..< ?n]) [0 ..< cout]
      = map (\<lambda>o'. replicate ?n ?y) [0 ..< cout]"
    using row by (intro map_cong) simp_all
  then show ?thesis by (simp add: strided_conv_relu_def tl par map_replicate_const)
qed

lemma const_time_mean:
  "0 < n \<Longrightarrow> time_mean (replicate B (replicate C (replicate n v))) = replicate B (replicate C v)"
  by (simp add: time_mean_def)

lemma const_affine:
  "affine (const_linear fin fout w b) (replicate B (replicate fin v))
     = replicate B (replicate fout (b + real fin * (w * v)))"
proof -
  have "map (\<lambda>i. replicate fout b ! i
          + (\<Sum>k<fin. replicate fout (replicate fin w) ! i ! k * replicate fin v ! k)) [0 ..< fout]
      = map (\<lambda>i. b + real fin * (w * v)) [0 ..< fout]"
    by (intro map_cong) simp_all
  then show ?thesis by (simp add: affine_def const_linear_def map_replicate_const)
qed


section \<open>The zero-weight module, the wrapper and the stand-in LSTM\<close>

lemma zero_model_ok: "init_ok zero_model"
  by (simp add: init_ok_def zero_model_def zero_conv_def zero_linear_def conv_shaped_def
      linear_shaped_def is_tensor3_iff is_tensor2_iff)

lemma dot_zero_left: "dot (replicate n 0) r = 0"
proof (induction n arbitrary: r)
  case 0
  then show ?case by (simp add: dot_def)
next
  case (Suc n)
  then show ?case by (cases r) (simp_all add: dot_def)
qed

lemma zero_linear_rows:
  "linear_apply (zero_linear fin fout) x = Inr y \<Longrightarrow> y = replicate (length x) (replicate fout 0)"
  by (auto simp: linear_apply_def zero_linear_def dot_zero_left zip_replicate
      map_replicate_const split: if_splits)

lemma l2_normalize_zeros:
  "l2_normalize eps (replicate B (replicate D 0)) = replicate B (replicate D 0)"
  by (simp add: l2_normalize_rows)

lemma zero_model_forward:
  assumes x: "is_tensor2 B L x" and L: "176 \<le> L"
  shows "forward zero_model x = Inr (replicate B (replicate 128 0))"
proof -
  obtain f3 e where e: "linear_apply (fc zero_model) (global_average_pooling f3) = Inr e"
      "is_tensor2 B 128 e" "forward zero_model x = Inr (l2_normalize eps_silero e)"
    using encoder_stages [OF zero_model_ok x L] by blast
  have "e = replicate (length (global_average_pooling f3)) (replicate 128 0)"
    using e(1) by (simp add: zero_model_def zero_linear_rows)
  moreover have "length e = B" using e(2) by (simp add: is_tensor2_iff)
  ultimately have "e = replicate B (replicate 128 0)" by simp
  then show ?thesis using e(3) by (simp add: l2_normalize_zeros)
qed

lemma index_last_nonempty: "xs \<noteq> [] \<Longrightarrow> index_last xs = Inr (last xs)"
  by (cases xs) (simp_all add: index_last_def)

lemma wrapper_error: "lstm w mels = Inl e \<Longrightarrow> wrapper_forward w mels = Inl e"
  by (simp add: wrapper_forward_def)

lemma wrapper_ok:
  assumes l: "lstm w mels = Inr (out, (hidden, c))"
    and h: "is_tensor3 nl B (in_features (linear_of w)) hidden" and nl: "0 < nl"
    and s: "linear_shaped (linear_of w)"
  shows "\<exists>y. linear_apply (linear_of w) (last hidden) = Inr y
           \<and> is_tensor2 B (out_features (linear_of w)) y
           \<and> wrapper_forward w mels = Inr (l2_normalize eps_resemblyzer (relu2 y))
           \<and> is_tensor2 B (out_features (linear_of w))
                (l2_normalize eps_resemblyzer (relu2 y))"
proof -
  have ne: "hidden \<noteq> []" using h nl by (auto simp: is_tensor3_iff)
  then have "last hidden \<in> set hidden" by simp
  then have "is_tensor2 B (in_features (linear_of w)) (last hidden)"
    using h by (simp add: is_tensor3_iff)
  then obtain y where y: "linear_apply (linear_of w) (last hidden) = Inr y"
      "is_tensor2 B (out_features (linear_of w)) y"
    using linear_ok [OF s] by blast
  have "wrapper_forward w mels = Inr (l2_normalize eps_resemblyzer (relu2 y))"
    using l y(1) by (simp add: wrapper_forward_def index_last_nonempty [OF ne])
  moreover have "is_tensor2 B (out_features (linear_of w))
      (l2_normalize eps_resemblyzer (relu2 y))"
    using y(2) by (intro l2_normalize_shape relu2_shape)
  ultimately show ?thesis using y by blast
qed

lemma wrapper_result:
  assumes "wrapper_forward w mels = Inr y"
  shows "\<exists>z. y = l2_normalize eps_resemblyzer (relu2 z)"
  using assms
  by (auto simp: wrapper_forward_def then_do_def Let_def split: sum.splits prod.splits)

lemma normalized_relu_nonneg:
  assumes "a \<in> set (l2_normalize eps_resemblyzer (relu2 z))" "c \<in> set a"
  shows "0 \<le> c"
proof -
  obtain r where r: "r \<in> set z"
      and a: "a = map (\<lambda>c. c / (l2norm (map (max 0) r) + eps_resemblyzer)) (map (max 0) r)"
    using assms(1) by (auto simp: l2_normalize_rows relu2_def)
  obtain c' where "c = max 0 c' / (l2norm (map (max 0) r) + eps_resemblyzer)"
    using assms(2) a by auto
  moreover have "0 < l2norm (map (max 0) r) + eps_resemblyzer"
    by (rule denominator_pos [OF eps_resemblyzer_pos])
  ultimately show ?thesis by simp
qed

lemma dot_nonneg:
  assumes "\<forall>c\<in>set a. 0 \<le> c" "\<forall>c\<in>set b. 0 \<le> c"
  shows "0 \<le> dot a b"
  unfolding dot_def
proof (rule sum_list_nonneg)
  fix t assume "t \<in> set (map (\<lambda>(p, q). p * q) (zip a b))"
  then obtain p q where pq: "(p, q) \<in> set (zip a b)" "t = p * q" by auto
  then have "p \<in> set a" "q \<in> set b" "t = p * q"
    by (auto dest: set_zip_leftD set_zip_rightD)
  then show "0 \<le> t" using assms by simp
qed

lemma stub_plus_minus:
  "wrapper_forward (stub_wrapper plus_minus) [[h # replicate 39 0]]
     = Inr [[max 0 h / (l2norm [max 0 h, max 0 (- h)] + eps_resemblyzer),
             max 0 (- h) / (l2norm [max 0 h, max 0 (- h)] + eps_resemblyzer)]]"
  by (simp add: wrapper_forward_def stub_wrapper_def stub_lstm_def plus_minus_def
      index_last_def linear_apply_def relu2_def l2_normalize_rows dot_def)

lemma stub_lstm_reject: "stub_lstm [[[1]]] = Inl RuntimeError"
  by (simp add: stub_lstm_def)

lemma stub_lstm_one_frame: "stub_lstm [[1 # replicate 39 0]] = Inr ([], ([[[1]]], []))"
  by (simp add: stub_lstm_def)


section \<open>The recurrent layer\<close>

















section \<open>Claims about the normalisation\<close>

text \<open>
  Claim C8. Normalisation is total: for every batch of raw embeddings, the zero and the
  near-zero vectors included, it returns a batch of the same shape, and the number each
  row is divided by, \<open>\<parallel>v\<parallel> + \<epsilon>\<close>, is strictly positive for the \<open>\<epsilon>\<close> of either script;
  the zero vector is returned unchanged.
\<close>

theorem normalize_total:
  "0 < l2norm v + eps_silero \<and> 0 < l2norm v + eps_resemblyzer
   \<and> l2_normalize eps_silero x = map (\<lambda>v. map (\<lambda>c. c / (l2norm v + eps_silero)) v) x
   \<and> l2_normalize eps_resemblyzer x
       = map (\<lambda>v. map (\<lambda>c. c / (l2norm v + eps_resemblyzer)) v) x
   \<and> map length (l2_normalize eps_silero x) = map length x
   \<and> map length (l2_normalize eps_resemblyzer x) = map length x
   \<and> l2_normalize eps_silero [replicate n 0] = [replicate n 0]
   \<and> l2_normalize eps_resemblyzer [replicate n 0] = [replicate n 0]"
  by (simp add: l2_normalize_rows denominator_pos eps_silero_pos eps_resemblyzer_pos
      comp_def)

text \<open>
  Claim C1, as stated, fails. The scripts divide by \<open>\<parallel>v\<parallel> + \<epsilon>\<close>, not by
  \<open>max(\<parallel>v\<parallel>, \<epsilon>)\<close>: for the one-entry vector \<open>v = [\<epsilon>]\<close> the code returns \<open>[1/2]\<close> where
  the clamped formula returns \<open>[1]\<close>, and no choice of \<open>\<epsilon>\<close> makes the clamped formula
  agree with either script on all vectors.
\<close>

theorem normalize_clamp_counterexample:
  "l2_normalize eps_silero [[1 / 10 ^ 8]] = [[1 / 2]]
   \<and> normalize_spec eps_silero [1 / 10 ^ 8] = [1]
   \<and> l2_normalize eps_resemblyzer [[1 / 10 ^ 5]] = [[1 / 2]]
   \<and> normalize_spec eps_resemblyzer [1 / 10 ^ 5] = [1]
   \<and> \<not> (\<exists>eps. \<forall>v. l2_normalize eps_silero [v] = [normalize_spec eps v])
   \<and> \<not> (\<exists>eps. \<forall>v. l2_normalize eps_resemblyzer [v] = [normalize_spec eps v])"
  using single_eps [OF eps_silero_pos] single_eps_spec [OF eps_silero_pos]
    single_eps [OF eps_resemblyzer_pos] single_eps_spec [OF eps_resemblyzer_pos]
    no_clamp_eps [OF eps_silero_pos] no_clamp_eps [OF eps_resemblyzer_pos]
  by (simp add: eps_silero_def eps_resemblyzer_def)

text \<open>
  Claim C1, amended. The normaliser computes \<open>v / (\<parallel>v\<parallel> + \<epsilon>)\<close> on every row, with
  \<open>\<epsilon> = 1e-8\<close> in the CNN script and \<open>\<epsilon> = 1e-5\<close> in the LSTM wrapper. This is the clamped
  formula of the specification times the factor \<open>max(\<parallel>v\<parallel>, \<epsilon>) / (\<parallel>v\<parallel> + \<epsilon>)\<close>, which
  lies between 1/2 and 1.
\<close>

theorem normalize_additive_eps:
  "l2_normalize eps_silero x = map (\<lambda>v. map (\<lambda>c. c / (l2norm v + 1 / 10 ^ 8)) v) x
   \<and> l2_normalize eps_resemblyzer x = map (\<lambda>v. map (\<lambda>c. c / (l2norm v + 1 / 10 ^ 5)) v) x
   \<and> l2_normalize eps_silero x
       = map (\<lambda>v. map (\<lambda>s. s * (max (l2norm v) eps_silero / (l2norm v + eps_silero)))
                         (normalize_spec eps_silero v)) x
   \<and> l2_normalize eps_resemblyzer x
       = map (\<lambda>v. map (\<lambda>s. s * (max (l2norm v) eps_resemblyzer
                                      / (l2norm v + eps_resemblyzer)))
                         (normalize_spec eps_resemblyzer v)) x
   \<and> 1 / 2 \<le> max (l2norm v) eps_silero / (l2norm v + eps_silero)
   \<and> max (l2norm v) eps_silero / (l2norm v + eps_silero) \<le> 1
   \<and> 1 / 2 \<le> max (l2norm v) eps_resemblyzer / (l2norm v + eps_resemblyzer)
   \<and> max (l2norm v) eps_resemblyzer / (l2norm v + eps_resemblyzer) \<le> 1"
proof -
  have "l2_normalize eps_silero x = map (\<lambda>v. map (\<lambda>c. c / (l2norm v + 1 / 10 ^ 8)) v) x"
    "l2_normalize eps_resemblyzer x = map (\<lambda>v. map (\<lambda>c. c / (l2norm v + 1 / 10 ^ 5)) v) x"
    by (simp_all only: l2_normalize_rows eps_silero_def eps_resemblyzer_def)
  then show ?thesis
    using clamp_relation [OF eps_silero_pos, of x] clamp_relation [OF eps_resemblyzer_pos, of x]
      clamp_factor(2,3) [OF l2norm_nonneg eps_silero_pos, of v]
      clamp_factor(2,3) [OF l2norm_nonneg eps_resemblyzer_pos, of v]
    by (simp only: simp_thms)
qed








section \<open>Claims about the CNN forward pass and input shapes\<close>

text \<open>
  Claim C4. On every batch of 32000-sample waveforms the CNN forward pass computes
  exactly this: three stages, each a strided convolution followed by \<open>max(0, _)\<close>, of
  shapes (B, 32, 1996), (B, 64, 997) and (B, 128, 498), every entry being given by the
  convolution formula; then the mean of each of the 128 channels over time; then one
  affine projection to 128 entries. The forward pass returns the L2 normalisation of
  that encoder output.
\<close>

theorem cnn_architecture:
  assumes "init_ok m" and "is_tensor2 B 32000 x"
  shows "\<exists>f1 f2 f3 e.
           f1 = strided_conv_relu (conv1 m) (unsqueeze1 x) \<and> is_tensor3 B 32 1996 f1
         \<and> f2 = strided_conv_relu (conv2 m) f1 \<and> is_tensor3 B 64 997 f2
         \<and> f3 = strided_conv_relu (conv3 m) f2 \<and> is_tensor3 B 128 498 f3
         \<and> e = affine (fc m) (time_mean f3) \<and> is_tensor2 B 128 e
         \<and> forward m x = Inr (l2_normalize eps_silero e)
         \<and> forward m x = Inr (l2_normalize eps_silero (cnn_encoder_formula m x))"
proof -
  have n: "conv_out_len 32000 80 16 = 1996" "conv_out_len 1996 3 2 = 997"
    "conv_out_len 997 3 2 = 498"
    by (simp_all add: conv_out_len_def)
  have L: "(176::nat) \<le> 32000" by simp
  show ?thesis using encoder_formula [OF assms L] by (simp only: n)
qed

text \<open>
  Instance: a module with constant weights on one waveform of 32000 ones. The first
  convolution gives -1 everywhere, which its ReLU clips to 0; the second stage then
  gives its bias 1, the third 1, the mean over time 1 and the projection 2.
\<close>

theorem cnn_architecture_witness:
  "strided_conv_relu (conv1 const_model) (unsqueeze1 [replicate 32000 1])
     = [replicate 32 (replicate 1996 0)]
   \<and> strided_conv_relu (conv2 const_model) [replicate 32 (replicate 1996 0)]
     = [replicate 64 (replicate 997 1)]
   \<and> strided_conv_relu (conv3 const_model) [replicate 64 (replicate 997 1)]
     = [replicate 128 (replicate 498 1)]
   \<and> affine (fc const_model) (time_mean [replicate 128 (replicate 498 1)])
     = [replicate 128 2]
   \<and> forward const_model [replicate 32000 1]
     = Inr (l2_normalize eps_silero [replicate 128 2])"
proof -
  have x: "is_tensor2 1 32000 [replicate 32000 1]" by (simp add: is_tensor2_iff)
  have n: "conv_out_len 32000 80 16 = 1996" "conv_out_len 1996 3 2 = 997"
    "conv_out_len 997 3 2 = 498"
    by (simp_all add: conv_out_len_def)
  have a: "strided_conv_relu (conv1 const_model) (unsqueeze1 [replicate 32000 1])
      = [replicate 32 (replicate 1996 0)]"
    using const_stage [of 80 32000 1 32 16 "- 1 / 80" 0 1 1] n
    by (simp add: const_model_def unsqueeze1_def)
  have b: "strided_conv_relu (conv2 const_model) [replicate 32 (replicate 1996 0)]
      = [replicate 64 (replicate 997 1)]"
    using const_stage [of 3 1996 32 64 2 "1 / 96" 1 1 0] n by (simp add: const_model_def)
  have c: "strided_conv_relu (conv3 const_model) [replicate 64 (replicate 997 1)]
      = [replicate 128 (replicate 498 1)]"
    using const_stage [of 3 997 64 128 2 "1 / 192" 0 1 1] n by (simp add: const_model_def)
  have d: "affine (fc const_model) (time_mean [replicate 128 (replicate 498 1)])
      = [replicate 128 2]"
    using const_time_mean [of 498 1 128 1] const_affine [of 128 128 "1 / 128" 1 1 1]
    by (simp add: const_model_def)
  show ?thesis
    using cnn_architecture [OF const_model_ok x] a b c d by simp
qed

text \<open>
  Claim C10. The CNN forward pass enforces no fixed input length: every batch of
  waveforms of at least 176 samples yields one 128-dimensional embedding per waveform,
  and 176 is the least such length, since a non-empty batch of shorter waveforms makes a
  convolution raise.
\<close>

theorem forward_accepts_any_length:
  assumes "init_ok m" and "is_tensor2 B L x"
  shows "(176 \<le> L \<longrightarrow> (\<exists>y. forward m x = Inr y \<and> is_tensor2 B 128 y))
       \<and> (0 < B \<and> L < 176 \<longrightarrow> forward m x = Inl RuntimeError)"
proof (intro conjI impI)
  assume "176 \<le> L"
  then obtain e where "is_tensor2 B 128 e" "forward m x = Inr (l2_normalize eps_silero e)"
    using encoder_stages [OF assms] by blast
  then show "\<exists>y. forward m x = Inr y \<and> is_tensor2 B 128 y"
    using l2_normalize_shape by blast
next
  assume "0 < B \<and> L < 176"
  then show "forward m x = Inl RuntimeError"
    using forward_too_short [OF assms] by blast
qed

text \<open>Instances: lengths 176 and 16000 are accepted, length 175 is rejected.\<close>

theorem forward_accepts_any_length_witness:
  "(\<exists>y. forward zero_model [replicate 176 1] = Inr y \<and> is_tensor2 1 128 y)
   \<and> (\<exists>y. forward zero_model [replicate 16000 1] = Inr y \<and> is_tensor2 1 128 y)
   \<and> forward zero_model [replicate 175 1] = Inl RuntimeError"
proof -
  have a: "is_tensor2 1 176 [replicate 176 1]" and b: "is_tensor2 1 16000 [replicate 16000 1]"
    and c: "is_tensor2 1 175 [replicate 175 1]"
    by (simp_all add: is_tensor2_iff)
  show ?thesis
    using forward_accepts_any_length [OF zero_model_ok a]
      forward_accepts_any_length [OF zero_model_ok b]
      forward_accepts_any_length [OF zero_model_ok c]
    by simp
qed

text \<open>
  Claim C6, as stated, fails: a batch of one waveform of 16000 samples, not the 32000 of
  the CNN variant, is not rejected. With all weights zero the forward pass even returns
  the zero vector of 128 entries for it.
\<close>

theorem shape_check_counterexample:
  "forward zero_model [replicate 16000 0] = Inr [replicate 128 0]"
proof -
  have "is_tensor2 1 16000 [replicate 16000 0]" by (simp add: is_tensor2_iff)
  then have "forward zero_model [replicate 16000 0] = Inr (replicate 1 (replicate 128 0))"
    by (rule zero_model_forward) simp
  then show ?thesis by simp
qed

text \<open>
  Claim C6, amended. Neither forward pass compares its input with the variant's nominal
  shape. On a non-empty batch of waveforms of \<open>L\<close> samples the CNN forward pass fails
  exactly when \<open>L < 176\<close>, with the tensor library's \<open>RuntimeError\<close>, and returns one
  128-dimensional embedding per waveform exactly when \<open>L \<ge> 176\<close>. The LSTM wrapper adds
  no check of its own: an error of the LSTM is passed on unchanged, and whenever the
  LSTM returns hidden states of the projection's input width, the wrapper returns an
  embedding of the projection's output width for every sequence of the batch.
\<close>

theorem no_shape_check:
  assumes "init_ok m" and "is_tensor2 B L x" and "0 < B"
  shows "(forward m x = Inl RuntimeError) = (L < 176)
       \<and> (\<exists>y. forward m x = Inr y \<and> is_tensor2 B 128 y) = (176 \<le> L)
       \<and> (lstm w mels = Inl e \<longrightarrow> wrapper_forward w mels = Inl e)
       \<and> (lstm w mels = Inr (out, (hidden, c))
            \<and> is_tensor3 nl N (in_features (linear_of w)) hidden \<and> 0 < nl
            \<and> linear_shaped (linear_of w)
          \<longrightarrow> (\<exists>y. wrapper_forward w mels = Inr y
                   \<and> is_tensor2 N (out_features (linear_of w)) y))"
proof (intro conjI impI)
  show "(forward m x = Inl RuntimeError) = (L < 176)"
  proof (cases "L < 176")
    case True
    then show ?thesis using forward_too_short [OF assms] by simp
  next
    case False
    then have "176 \<le> L" by simp
    then obtain e where "forward m x = Inr (l2_normalize eps_silero e)"
      using encoder_stages [OF assms(1,2)] by blast
    then show ?thesis using False by simp
  qed
  show "(\<exists>y. forward m x = Inr y \<and> is_tensor2 B 128 y) = (176 \<le> L)"
  proof (cases "L < 176")
    case True
    then show ?thesis using forward_too_short [OF assms] by simp
  next
    case False
    then have "176 \<le> L" by simp
    then obtain e where "is_tensor2 B 128 e" "forward m x = Inr (l2_normalize eps_silero e)"
      using encoder_stages [OF assms(1,2)] by blast
    then have "\<exists>y. forward m x = Inr y \<and> is_tensor2 B 128 y"
      using l2_normalize_shape by blast
    then show ?thesis using False by simp
  qed
next
  assume "lstm w mels = Inl e"
  then show "wrapper_forward w mels = Inl e" by (rule wrapper_error)
next
  assume a: "lstm w mels = Inr (out, (hidden, c))
      \<and> is_tensor3 nl N (in_features (linear_of w)) hidden \<and> 0 < nl
      \<and> linear_shaped (linear_of w)"
  then show "\<exists>y. wrapper_forward w mels = Inr y
      \<and> is_tensor2 N (out_features (linear_of w)) y"
    using wrapper_ok [of w mels out hidden c nl N] by blast
qed

text \<open>
  Instances: the zero-weight CNN on 16000 samples, and the wrapper around the stand-in
  LSTM on a frame of one channel (rejected by the LSTM) and on a single 40-channel frame
  (accepted, although it is not 160 frames long).
\<close>

theorem no_shape_check_witness:
  "forward zero_model [replicate 16000 0] \<noteq> Inl RuntimeError
   \<and> (\<exists>y. forward zero_model [replicate 16000 0] = Inr y \<and> is_tensor2 1 128 y)
   \<and> wrapper_forward (stub_wrapper plus_minus) [[[1]]] = Inl RuntimeError
   \<and> (\<exists>y. wrapper_forward (stub_wrapper plus_minus) [[1 # replicate 39 0]] = Inr y
           \<and> is_tensor2 1 2 y)"
proof -
  let ?w = "stub_wrapper plus_minus"
  have x: "is_tensor2 1 16000 [replicate 16000 0]" by (simp add: is_tensor2_iff)
  have r: "lstm ?w [[[1]]] = Inl RuntimeError"
    by (simp add: stub_wrapper_def stub_lstm_reject)
  have l: "lstm ?w [[1 # replicate 39 0]] = Inr ([], ([[[1]]], []))"
    by (simp add: stub_wrapper_def stub_lstm_one_frame)
  have h: "is_tensor3 1 1 (in_features (linear_of ?w)) [[[1]]]"
    by (simp add: stub_wrapper_def plus_minus_def is_tensor3_iff is_tensor2_iff)
  have s: "linear_shaped (linear_of ?w)"
    by (simp add: stub_wrapper_def plus_minus_def linear_shaped_def is_tensor2_iff)
  have o: "out_features (linear_of ?w) = 2" by (simp add: stub_wrapper_def plus_minus_def)
  show ?thesis
    using no_shape_check [OF zero_model_ok x, of ?w "[[[1]]]" RuntimeError "[]" "[]" "[]" 0 0]
      no_shape_check [OF zero_model_ok x, of ?w "[[1 # replicate 39 0]]" RuntimeError
        "[]" "[[[1]]]" "[]" 1 1]
      r l h s o
    by simp
qed


section \<open>Claims about the LSTM wrapper\<close>




text \<open>
  Claim C9. Every entry of every embedding that the LSTM wrapper returns is
  non-negative, because the projection passes through ReLU and is then divided by a
  positive number; hence the dot product of any two such embeddings is at least 0.
\<close>

theorem recurrent_nonneg:
  assumes "wrapper_forward w1 mels1 = Inr y1" and "wrapper_forward w2 mels2 = Inr y2"
    and "a \<in> set y1" and "b \<in> set y2"
  shows "(\<forall>c\<in>set a. 0 \<le> c) \<and> 0 \<le> dot a b"
proof -
  have "\<forall>c\<in>set a. 0 \<le> c"
    using wrapper_result [OF assms(1)] assms(3) normalized_relu_nonneg by blast
  moreover have "\<forall>c\<in>set b. 0 \<le> c"
    using wrapper_result [OF assms(2)] assms(4) normalized_relu_nonneg by blast
  ultimately show ?thesis using dot_nonneg by blast
qed

text \<open>
  Instance: the stand-in LSTM with the projection \<open>h \<mapsto> (h, -h)\<close> on a frame whose first
  channel is 1; ReLU clips the second entry to 0.
\<close>

theorem recurrent_nonneg_witness:
  "wrapper_forward (stub_wrapper plus_minus) [[1 # replicate 39 0]]
     = Inr [[100000 / 100001, 0]]
   \<and> list_all (\<lambda>c. 0 \<le> c) [100000 / 100001, 0 :: real]
   \<and> 0 \<le> dot [100000 / 100001, 0] [100000 / 100001, 0]"
proof -
  have eq: "wrapper_forward (stub_wrapper plus_minus) [[1 # replicate 39 0]]
      = Inr [[100000 / 100001, 0]]"
    using stub_plus_minus [of 1] by (simp add: l2norm_def eps_resemblyzer_def)
  show ?thesis
    using eq recurrent_nonneg [OF eq eq, of "[100000 / 100001, 0]" "[100000 / 100001, 0]"]
    by simp
qed

end
